theory Spec2Isabelle
  imports Complex_Main
begin

section \<open>JavaScript values and helpers used by the gateway routes\<close>

text \<open>
  Request and response bodies are JSON documents. Numbers are restricted to integers
  that JavaScript prints in decimal (none of the routes computes with them). An object
  is an association list in document order; as with \<open>JSON.parse\<close>, the last occurrence
  of a duplicated key is the one a property access sees. A string is the sequence of
  bytes of the UTF-8 encoding of the JavaScript string.
\<close>

datatype json =
    JNull
  | JBool bool
  | JNum int
  | JStr string
  | JArr "json list"
  | JObj "(string \<times> json) list"

text \<open>
  A thrown value: an \<open>Error\<close> instance with its message, or anything else. The
  \<open>catch\<close> blocks of the routes test \<open>error instanceof Error\<close>.
\<close>

datatype thrown = ErrorObj string | OtherThrown

text \<open>JavaScript truthiness of a JSON value (\<open>!v\<close> is its negation).\<close>

fun truthy :: "json \<Rightarrow> bool" where
  "truthy JNull = False"
| "truthy (JBool b) = b"
| "truthy (JNum n) = (n \<noteq> 0)"
| "truthy (JStr s) = (s \<noteq> [])"
| "truthy (JArr xs) = True"
| "truthy (JObj kvs) = True"

text \<open>Truthiness of the result of a property access, where \<open>None\<close> is \<open>undefined\<close>.\<close>

fun truthy_opt :: "json option \<Rightarrow> bool" where
  "truthy_opt None = False"
| "truthy_opt (Some v) = truthy v"

text \<open>
  Property access \<open>v.k\<close> on a JSON value other than \<open>null\<close>: an own property of an
  object, \<open>undefined\<close> on every primitive and array (for the keys the routes read).
  Reading or destructuring a property of \<open>null\<close> throws a \<open>TypeError\<close>, which is an
  \<open>Error\<close>; the wording of its message is the platform's, and one fixed text stands
  for it here.
\<close>

fun property :: "json \<Rightarrow> string \<Rightarrow> json option" where
  "property (JObj kvs) k = map_of (rev kvs) k"
| "property v k = None"

definition null_property_message :: string where
  "null_property_message = ''Cannot read properties of null''"

fun property_or_throw :: "json \<Rightarrow> string \<Rightarrow> thrown + json option" where
  "property_or_throw JNull k = Inl (ErrorObj null_property_message)"
| "property_or_throw v k = Inr (property v k)"

text \<open>\<open>a || b\<close> where \<open>a\<close> is the result of a property access.\<close>

fun js_or :: "json option \<Rightarrow> json \<Rightarrow> json" where
  "js_or None d = d"
| "js_or (Some v) d = (if truthy v then v else d)"

fun dec_nat :: "nat \<Rightarrow> string" where
  "dec_nat n = (if n < 10 then [''0123456789'' ! n]
                else dec_nat (n div 10) @ [''0123456789'' ! (n mod 10)])"

definition dec_int :: "int \<Rightarrow> string" where
  "dec_int i = (if i < 0 then CHR ''-'' # dec_nat (nat (- i)) else dec_nat (nat i))"

fun join_comma :: "string list \<Rightarrow> string" where
  "join_comma [] = []"
| "join_comma [s] = s"
| "join_comma (s # t # ss) = s @ '','' @ join_comma (t # ss)"

text \<open>The results of a list of computations in order, or the first value thrown.\<close>

fun collect :: "('e + 'a) list \<Rightarrow> 'e + 'a list" where
  "collect [] = Inr []"
| "collect (Inl t # xs) = Inl t"
| "collect (Inr a # xs) = (case collect xs of Inl t \<Rightarrow> Inl t | Inr as \<Rightarrow> Inr (a # as))"

definition to_primitive_message :: string where
  "to_primitive_message = ''Cannot convert object to primitive value''"

text \<open>
  \<open>String(v)\<close>, the conversion that \<open>new URL(v)\<close>, \<open>new Error(v)\<close> and template
  literals apply to their argument. An array is joined with commas, \<open>null\<close> elements
  giving the empty string. An object takes \<open>toString\<close> from \<open>Object.prototype\<close> unless
  it has a key \<open>toString\<close> of its own; that one is never callable in a parsed JSON
  document, and the conversion throws a \<open>TypeError\<close> (its message is the platform's,
  one fixed text stands for it).
\<close>

fun js_String :: "json \<Rightarrow> thrown + string" where
  "js_String JNull = Inr ''null''"
| "js_String (JBool b) = Inr (if b then ''true'' else ''false'')"
| "js_String (JNum n) = Inr (dec_int n)"
| "js_String (JStr s) = Inr s"
| "js_String (JArr xs) =
     (case collect (map (\<lambda>x. if x = JNull then Inr [] else js_String x) xs) of
        Inl t \<Rightarrow> Inl t
      | Inr ss \<Rightarrow> Inr (join_comma ss))"
| "js_String (JObj kvs) =
     (case map_of kvs ''toString'' of
        None \<Rightarrow> Inr ''[object Object]''
      | Some v \<Rightarrow> Inl (ErrorObj to_primitive_message))"

text \<open>\<open>error instanceof Error ? error.message : fallback\<close>\<close>

fun error_message :: "thrown \<Rightarrow> string \<Rightarrow> string" where
  "error_message (ErrorObj m) d = m"
| "error_message OtherThrown d = d"

section \<open>HTTP messages\<close>

datatype http_method = GET | POST | DELETE

text \<open>A request the gateway sends to the Python backend with \<open>fetch\<close>.\<close>

record backend_request =
  br_method :: http_method
  br_url :: string
  br_headers :: "(string \<times> string) list"
  br_body :: "json option"

text \<open>
  What the backend answered: the status code, and what \<open>response.json()\<close> and
  \<open>response.text()\<close> give (either may reject).
\<close>

record backend_response =
  bs_status :: nat
  bs_json :: "thrown + json"
  bs_text :: "thrown + string"

definition ok :: "backend_response \<Rightarrow> bool" where
  "ok r = (200 \<le> bs_status r \<and> bs_status r \<le> 299)"

text \<open>
  What a data stream of the text-generation library delivers: text, or the report of a
  failure of the service.
\<close>

datatype stream_part = TextPart string | ErrorPart string

datatype body = JsonBody json | TextBody string | DataStream "stream_part list"

record response =
  status :: nat
  headers :: "(string \<times> string) list"
  content :: body

text \<open>\<open>NextResponse.json(data, {status})\<close>\<close>

definition NextResponse_json :: "json \<Rightarrow> nat \<Rightarrow> response" where
  "NextResponse_json data st =
     \<lparr>status = st, headers = [(''content-type'', ''application/json'')], content = JsonBody data\<rparr>"







text \<open>The argument of \<open>streamText\<close> in the chat route.\<close>

record model_call =
  mc_model :: string
  mc_system :: string
  mc_messages :: "json option"
  mc_temperature :: real
  mc_maxTokens :: nat

text \<open>
  The surroundings of a route: the process environment, the platform's URL parser
  (\<open>new URL(s)\<close> returns or throws), the backend reached by \<open>fetch\<close>, the
  text-generation library and the \<open>stack\<close> property the platform attaches to an
  \<open>Error\<close> with a given message. \<open>streamText\<close> is not awaited: it returns at once, or
  throws at once; what the service does afterwards, a failure included, is delivered in
  the parts of the stream it returned.
\<close>

record env =
  env_PYTHON_API_URL :: "string option"
  env_GOOGLE_GENERATIVE_AI_API_KEY :: "string option"
  url_parses :: "string \<Rightarrow> bool"
  fetch :: "backend_request \<Rightarrow> thrown + backend_response"
  streamText :: "model_call \<Rightarrow> thrown + stream_part list"
  error_stack :: "string \<Rightarrow> string option"

text \<open>\<open>process.env.PYTHON_API_URL || "http://localhost:8000"\<close>\<close>

definition PYTHON_API_URL :: "env \<Rightarrow> string" where
  "PYTHON_API_URL e =
     (case env_PYTHON_API_URL e of
        None \<Rightarrow> ''http://localhost:8000''
      | Some s \<Rightarrow> if s = [] then ''http://localhost:8000'' else s)"

definition json_headers :: "(string \<times> string) list" where
  "json_headers = [(''Content-Type'', ''application/json'')]"

text \<open>
  The failure branch shared by the routes:
  \<open>const errorData = await response.json().catch(() => ({})); throw new Error(errorData.detail || fallback)\<close>
\<close>

definition detail_error :: "backend_response \<Rightarrow> string \<Rightarrow> thrown" where
  "detail_error r fallback =
     (let errorData = (case bs_json r of Inl e \<Rightarrow> JObj [] | Inr d \<Rightarrow> d) in
      case property_or_throw errorData ''detail'' of
        Inl e \<Rightarrow> e
      | Inr detail \<Rightarrow>
         (case js_String (js_or detail (JStr fallback)) of
            Inl e \<Rightarrow> e
          | Inr m \<Rightarrow> ErrorObj m))"

text \<open>\<open>try { new URL(url) } catch { ... }\<close>: whether the \<open>try\<close> block completes.\<close>

definition new_URL_returns :: "env \<Rightarrow> json \<Rightarrow> bool" where
  "new_URL_returns e url = (case js_String url of Inl t \<Rightarrow> False | Inr s \<Rightarrow> url_parses e s)"

section \<open>Route \<open>POST /api/scrape\<close>\<close>

text \<open>
  The body of the \<open>try\<close> block. The first component is the response returned or the
  value thrown; the second lists the requests sent to the backend, in order.
\<close>

definition scrape_try ::
  "env \<Rightarrow> thrown + json \<Rightarrow> (thrown + response) \<times> backend_request list" where
  "scrape_try e request_json =
     (case request_json of
        Inl t \<Rightarrow> (Inl t, [])
      | Inr b \<Rightarrow>
         (case property_or_throw b ''url'' of
            Inl t \<Rightarrow> (Inl t, [])
          | Inr url \<Rightarrow>
             let maxPages = (case property b ''maxPages'' of None \<Rightarrow> JNum 5 | Some v \<Rightarrow> v) in
             (case url of
                None \<Rightarrow> (Inr (NextResponse_json (JObj [(''error'', JStr ''URL is required'')]) 400), [])
              | Some u \<Rightarrow>
                 if \<not> truthy u then
                   (Inr (NextResponse_json (JObj [(''error'', JStr ''URL is required'')]) 400), [])
                 else if \<not> new_URL_returns e u then
                   (Inr (NextResponse_json (JObj [(''error'', JStr ''Invalid URL format'')]) 400), [])
                 else
                   let req = \<lparr>br_method = POST, br_url = PYTHON_API_URL e @ ''/scrape'',
                              br_headers = json_headers,
                              br_body = Some (JObj [(''url'', u), (''max_pages'', maxPages)])\<rparr> in
                   (case fetch e req of
                      Inl t \<Rightarrow> (Inl t, [req])
                    | Inr r \<Rightarrow>
                       if \<not> ok r then (Inl (detail_error r ''Failed to start scraping job''), [req])
                       else (case bs_json r of
                               Inl t \<Rightarrow> (Inl t, [req])
                             | Inr data \<Rightarrow> (Inr (NextResponse_json data 200), [req]))))))"

text \<open>The whole handler: anything thrown inside \<open>try\<close> becomes a 500 response.\<close>

definition scrape_POST :: "env \<Rightarrow> thrown + json \<Rightarrow> response \<times> backend_request list" where
  "scrape_POST e request_json =
     (case scrape_try e request_json of
        (Inr r, calls) \<Rightarrow> (r, calls)
      | (Inl t, calls) \<Rightarrow>
          (NextResponse_json (JObj [(''error'', JStr (error_message t ''Failed to scrape URL''))]) 500,
           calls))"

section \<open>Route \<open>POST /api/test-scrape\<close>\<close>

definition test_scrape_try ::
  "env \<Rightarrow> thrown + json \<Rightarrow> (thrown + response) \<times> backend_request list" where
  "test_scrape_try e request_json =
     (case request_json of
        Inl t \<Rightarrow> (Inl t, [])
      | Inr b \<Rightarrow>
         (case property_or_throw b ''url'' of
            Inl t \<Rightarrow> (Inl t, [])
          | Inr url \<Rightarrow>
             let customInstructions = property b ''customInstructions'' in
             (case url of
                None \<Rightarrow> (Inr (NextResponse_json (JObj [(''error'', JStr ''URL is required'')]) 400), [])
              | Some u \<Rightarrow>
                 if \<not> truthy u then
                   (Inr (NextResponse_json (JObj [(''error'', JStr ''URL is required'')]) 400), [])
                 else if \<not> new_URL_returns e u then
                   (Inr (NextResponse_json (JObj [(''error'', JStr ''Invalid URL format'')]) 400), [])
                 else
                   let req = \<lparr>br_method = POST, br_url = PYTHON_API_URL e @ ''/test-scrape'',
                              br_headers = json_headers,
                              br_body = Some (JObj [(''url'', u),
                                (''custom_instructions'', js_or customInstructions JNull)])\<rparr> in
                   (case fetch e req of
                      Inl t \<Rightarrow> (Inl t, [req])
                    | Inr r \<Rightarrow>
                       if \<not> ok r then
                         (Inl (detail_error r ''Failed to start test scraping job''), [req])
                       else (case bs_json r of
                               Inl t \<Rightarrow> (Inl t, [req])
                             | Inr data \<Rightarrow> (Inr (NextResponse_json data 200), [req]))))))"

definition test_scrape_POST :: "env \<Rightarrow> thrown + json \<Rightarrow> response \<times> backend_request list" where
  "test_scrape_POST e request_json =
     (case test_scrape_try e request_json of
        (Inr r, calls) \<Rightarrow> (r, calls)
      | (Inl t, calls) \<Rightarrow>
          (NextResponse_json
             (JObj [(''error'', JStr (error_message t ''Failed to start test scrape''))]) 500,
           calls))"

section \<open>Routes \<open>GET\<close> and \<open>DELETE /api/scrape/[jobId]\<close>\<close>

definition job_try ::
  "http_method \<Rightarrow> string \<Rightarrow> env \<Rightarrow> string \<Rightarrow> (thrown + response) \<times> backend_request list" where
  "job_try m failure e jobId =
     (let req = \<lparr>br_method = m, br_url = PYTHON_API_URL e @ ''/scrape/'' @ jobId,
                 br_headers = json_headers, br_body = None\<rparr> in
      case fetch e req of
        Inl t \<Rightarrow> (Inl t, [req])
      | Inr r \<Rightarrow>
         if \<not> ok r then
           (if bs_status r = 404 then
              (Inr (NextResponse_json (JObj [(''error'', JStr ''Job not found'')]) 404), [req])
            else (Inl (ErrorObj failure), [req]))
         else (case bs_json r of
                 Inl t \<Rightarrow> (Inl t, [req])
               | Inr data \<Rightarrow> (Inr (NextResponse_json data 200), [req])))"

definition job_GET :: "env \<Rightarrow> string \<Rightarrow> response \<times> backend_request list" where
  "job_GET e jobId =
     (case job_try GET ''Failed to get job status'' e jobId of
        (Inr r, calls) \<Rightarrow> (r, calls)
      | (Inl t, calls) \<Rightarrow>
          (NextResponse_json
             (JObj [(''error'', JStr (error_message t ''Failed to get job status''))]) 500,
           calls))"

definition job_DELETE :: "env \<Rightarrow> string \<Rightarrow> response \<times> backend_request list" where
  "job_DELETE e jobId =
     (case job_try DELETE ''Failed to delete job'' e jobId of
        (Inr r, calls) \<Rightarrow> (r, calls)
      | (Inl t, calls) \<Rightarrow>
          (NextResponse_json
             (JObj [(''error'', JStr (error_message t ''Failed to delete job''))]) 500,
           calls))"

section \<open>Route \<open>GET /api/export/[jobId]/[format]\<close>\<close>



section \<open>Route \<open>POST /api/chat\<close>\<close>

definition nl :: string where
  "nl = [CHR 0x0A]"

definition prompt_before_content :: string where
  "prompt_before_content =
     ''You are a helpful AI assistant that can answer questions about the following scraped web content. Use this content to provide accurate and detailed responses.''
     @ nl @ nl @ ''SCRAPED CONTENT:'' @ nl"

definition prompt_after_content :: string where
  "prompt_after_content =
     nl @ nl @ ''Instructions:'' @ nl
     @ ''- Answer questions based on the scraped content above'' @ nl
     @ ''- If the question cannot be answered from the content, say so clearly'' @ nl
     @ ''- Provide specific details and examples from the content when relevant'' @ nl
     @ ''- Be concise but comprehensive in your responses''"

definition fallback_prompt :: string where
  "fallback_prompt =
     ''You are a helpful AI assistant. However, no web content has been provided for you to analyze. Please ask the user to scrape a website first before asking questions about its content.''"

text \<open>\<open>const systemPrompt = scrapedContent ? `... ${scrapedContent} ...` : `...`\<close>\<close>

fun systemPrompt :: "json option \<Rightarrow> thrown + string" where
  "systemPrompt None = Inr fallback_prompt"
| "systemPrompt (Some sc) =
     (if truthy sc then
        (case js_String sc of
           Inl t \<Rightarrow> Inl t
         | Inr s \<Rightarrow> Inr (prompt_before_content @ s @ prompt_after_content))
      else Inr fallback_prompt)"

fun isArray :: "json option \<Rightarrow> bool" where
  "isArray (Some (JArr xs)) = True"
| "isArray v = False"

text \<open>
  \<open>new Response(JSON.stringify(data), {status, headers: {"Content-Type": "application/json"}})\<close>;
  its one header value is a constant that the constructor accepts.
\<close>

definition Response_json :: "json \<Rightarrow> nat \<Rightarrow> response" where
  "Response_json data st =
     \<lparr>status = st, headers = [(''Content-Type'', ''application/json'')], content = JsonBody data\<rparr>"

text \<open>
  The \<open>try\<close> block of the chat handler (its \<open>console.log\<close> calls left out). The
  second component lists the calls of \<open>streamText\<close>. The response that
  \<open>result.toDataStreamResponse()\<close> builds is the library's: status 200 with the stream
  as its content, its headers left out.
\<close>

definition chat_try :: "env \<Rightarrow> thrown + json \<Rightarrow> (thrown + response) \<times> model_call list" where
  "chat_try e request_json =
     (case request_json of
        Inl t \<Rightarrow> (Inl t, [])
      | Inr b \<Rightarrow>
         (case property_or_throw b ''messages'' of
            Inl t \<Rightarrow> (Inl t, [])
          | Inr messages \<Rightarrow>
             let scrapedContent = property b ''scrapedContent'' in
             if \<not> truthy_opt messages \<or> \<not> isArray messages then
               (Inr (Response_json (JObj [(''error'', JStr ''Invalid messages format'')]) 400), [])
             else
               (case systemPrompt scrapedContent of
                  Inl t \<Rightarrow> (Inl t, [])
                | Inr prompt \<Rightarrow>
                   if \<not> truthy_opt (map_option JStr (env_GOOGLE_GENERATIVE_AI_API_KEY e)) then
                     (Inr (Response_json (JObj [(''error'', JStr ''AI service not configured'')]) 500), [])
                   else
                     let call = \<lparr>mc_model = ''gemini-2.0-flash-exp'', mc_system = prompt,
                                 mc_messages = messages, mc_temperature = 7 / 10,
                                 mc_maxTokens = 1000\<rparr> in
                     (case streamText e call of
                        Inl t \<Rightarrow> (Inl t, [call])
                      | Inr stream \<Rightarrow>
                         (Inr \<lparr>status = 200, headers = [], content = DataStream stream\<rparr>,
                          [call])))))"

text \<open>
  The \<open>catch\<close> block: \<open>error.message\<close> and \<open>error.stack\<close> of an \<open>Error\<close>
  (\<open>JSON.stringify\<close> drops \<open>details\<close> when the stack is undefined), fixed texts otherwise.
\<close>

fun chat_error_body :: "env \<Rightarrow> thrown \<Rightarrow> json" where
  "chat_error_body e (ErrorObj m) =
     JObj ((''error'', JStr m) #
           (case error_stack e m of None \<Rightarrow> [] | Some st \<Rightarrow> [(''details'', JStr st)]))"
| "chat_error_body e OtherThrown =
     JObj [(''error'', JStr ''Internal Server Error''), (''details'', JStr ''Unknown error'')]"

definition chat_POST :: "env \<Rightarrow> thrown + json \<Rightarrow> response \<times> model_call list" where
  "chat_POST e request_json =
     (case chat_try e request_json of
        (Inr r, calls) \<Rightarrow> (r, calls)
      | (Inl t, calls) \<Rightarrow> (Response_json (chat_error_body e t) 500, calls))"

section \<open>The client component: starting a job and polling its status\<close>

text \<open>
  The request \<open>handleScrapeUrl\<close> sends to start a job, from the \<open>url\<close> and
  \<open>customInstructions\<close> fields of the form (both strings).
\<close>

definition endpoint :: "bool \<Rightarrow> string" where
  "endpoint testMode = (if testMode then ''/api/test-scrape'' else ''/api/scrape'')"

definition payload :: "bool \<Rightarrow> string \<Rightarrow> string \<Rightarrow> json" where
  "payload testMode url customInstructions =
     (if testMode then
        JObj [(''url'', JStr url),
              (''customInstructions'', js_or (Some (JStr customInstructions)) JNull)]
      else
        JObj [(''url'', JStr url), (''maxPages'', JNum 5),
              (''customInstructions'', js_or (Some (JStr customInstructions)) JNull)])"

datatype stage = Idle | Scraping | Cleaning | Complete | Error

record ProcessingStatus =
  stage :: stage
  progress :: "json option"
  message :: "json option"

record ScrapedData =
  sd_url :: "json option"
  sd_title :: "json option"
  sd_content :: json
  sd_wordCount :: json
  sd_qualityScore :: json
  sd_timestamp :: string
  sd_importantLinks :: json
  sd_description :: "json option"
  sd_pagesScraped :: json
  sd_averageQualityScore :: "json option"
  sd_extractionMethod :: json
  sd_isTestScrape :: bool
  sd_customInstructionsApplied :: json

text \<open>Optional chaining \<open>v?.k\<close>.\<close>

fun opt_chain :: "json option \<Rightarrow> string \<Rightarrow> json option" where
  "opt_chain None k = None"
| "opt_chain (Some JNull) k = None"
| "opt_chain (Some v) k = property v k"

text \<open>
  The object passed to \<open>setScrapedData\<close>, built from a truthy \<open>statusData.result\<close>;
  \<open>now\<close> is \<open>new Date().toISOString()\<close>.
\<close>

definition scraped_of :: "bool \<Rightarrow> string \<Rightarrow> json \<Rightarrow> ScrapedData" where
  "scraped_of testMode now result =
     \<lparr>sd_url = property result ''url'',
      sd_title = property result ''title'',
      sd_content = js_or (property result ''cleanedContent'') (JStr []),
      sd_wordCount = js_or (property result ''wordCount'') (JNum 0),
      sd_qualityScore = js_or (property result ''qualityScore'') (JNum 0),
      sd_timestamp = now,
      sd_importantLinks = js_or (property result ''importantLinks'') (JArr []),
      sd_description = property result ''description'',
      sd_pagesScraped = js_or (property result ''pagesScraped'') (JNum 1),
      sd_averageQualityScore = property result ''qualityScore'',
      sd_extractionMethod =
        js_or (opt_chain (property result ''metadata'') ''extractionMethod'') (JStr ''enhanced''),
      sd_isTestScrape = testMode,
      sd_customInstructionsApplied =
        js_or (property result ''customInstructionsApplied'') (JBool False)\<rparr>"

text \<open>What one run of the interval callback does to the component, in order.\<close>

datatype effect =
    SetProcessingStatus ProcessingStatus
  | SetScrapedData ScrapedData
  | ClearInterval

text \<open>The \<open>catch\<close> block of the callback.\<close>

definition poll_failed :: "effect list" where
  "poll_failed =
     [SetProcessingStatus
        \<lparr>stage = Error, progress = Some (JNum 0),
         message = Some (JStr ''Failed to get scraping status'')\<rparr>,
      ClearInterval]"

text \<open>
  The interval callback. Its argument is the outcome of \<open>fetch(`/api/scrape/${job_id}`)\<close>:
  a network failure, or the gateway's response. In the first branch \<open>statusData.result\<close>
  is truthy, so \<open>js_or\<close> returns it unchanged.
\<close>

definition poll_effects :: "bool \<Rightarrow> string \<Rightarrow> thrown + backend_response \<Rightarrow> effect list" where
  "poll_effects testMode now statusResponse =
     (case statusResponse of
        Inl t \<Rightarrow> poll_failed
      | Inr r \<Rightarrow>
         if \<not> ok r then poll_failed
         else
           (case bs_json r of
              Inl t \<Rightarrow> poll_failed
            | Inr statusData \<Rightarrow>
               (case property_or_throw statusData ''status'' of
                  Inl t \<Rightarrow> poll_failed
                | Inr st \<Rightarrow>
                   let shown = SetProcessingStatus
                         \<lparr>stage = (if st = Some (JStr ''completed'') then Complete
                                   else if st = Some (JStr ''error'') then Error else Scraping),
                          progress = property statusData ''progress'',
                          message = property statusData ''message''\<rparr> in
                   if st = Some (JStr ''completed'') \<and> truthy_opt (property statusData ''result'') then
                     [shown,
                      SetScrapedData
                        (scraped_of testMode now (js_or (property statusData ''result'') JNull)),
                      ClearInterval]
                   else if st = Some (JStr ''error'') then
                     [shown,
                      SetProcessingStatus
                        \<lparr>stage = Error, progress = Some (JNum 0),
                         message = Some (js_or (property statusData ''error'') (JStr ''Scraping failed''))\<rparr>,
                      ClearInterval]
                   else [shown])))"

text \<open>
  The state of the component that polling touches. \<open>poll_times\<close> records when a status
  request was sent, in milliseconds since the interval was created.
\<close>

record client =
  processingStatus :: ProcessingStatus
  scrapedData :: "ScrapedData option"
  interval_active :: bool
  poll_times :: "nat list"

fun apply_effect :: "client \<Rightarrow> effect \<Rightarrow> client" where
  "apply_effect c (SetProcessingStatus p) = c\<lparr>processingStatus := p\<rparr>"
| "apply_effect c (SetScrapedData d) = c\<lparr>scrapedData := Some d\<rparr>"
| "apply_effect c ClearInterval = c\<lparr>interval_active := False\<rparr>"

definition on_poll :: "bool \<Rightarrow> string \<Rightarrow> thrown + backend_response \<Rightarrow> client \<Rightarrow> client" where
  "on_poll testMode now statusResponse c = foldl apply_effect c (poll_effects testMode now statusResponse)"

text \<open>\<open>setInterval(..., 2000)\<close> and \<open>setTimeout(() => clearInterval(pollInterval), 300000)\<close>\<close>

definition POLL_INTERVAL_MS :: nat where
  "POLL_INTERVAL_MS = 2000"

definition GIVE_UP_MS :: nat where
  "GIVE_UP_MS = 300000"

text \<open>
  The two timers, run in the order they come due: the \<open>k\<close>-th run of the interval
  callback at \<open>2000 * k\<close> ms, the timeout at \<open>300000\<close> ms (the interval, created
  first, goes first when both are due). \<open>status_at k\<close> is the outcome of the \<open>k\<close>-th
  status request and \<open>clock t\<close> the time stamp at \<open>t\<close> ms; each request is answered
  before the next timer comes due.
\<close>

function poll_loop ::
  "bool \<Rightarrow> (nat \<Rightarrow> string) \<Rightarrow> (nat \<Rightarrow> thrown + backend_response) \<Rightarrow> nat \<Rightarrow> client \<Rightarrow> client" where
  "poll_loop testMode clock status_at k c =
     (if \<not> interval_active c then c
      else if GIVE_UP_MS < POLL_INTERVAL_MS * k then c\<lparr>interval_active := False\<rparr>
      else poll_loop testMode clock status_at (Suc k)
             (on_poll testMode (clock (POLL_INTERVAL_MS * k)) (status_at k)
                (c\<lparr>poll_times := poll_times c @ [POLL_INTERVAL_MS * k]\<rparr>)))"
  by pat_completeness auto
termination
  by (relation "measure (\<lambda>(testMode, clock, status_at, k, c). GIVE_UP_MS + POLL_INTERVAL_MS - POLL_INTERVAL_MS * k)")
     (auto simp: GIVE_UP_MS_def POLL_INTERVAL_MS_def)

declare poll_loop.simps [simp del]

definition start_polling ::
  "bool \<Rightarrow> (nat \<Rightarrow> string) \<Rightarrow> (nat \<Rightarrow> thrown + backend_response) \<Rightarrow> client \<Rightarrow> client" where
  "start_polling testMode clock status_at c =
     poll_loop testMode clock status_at 1 (c\<lparr>interval_active := True, poll_times := []\<rparr>)"

text \<open>
  The component when \<open>handleScrapeUrl\<close> has announced the start of a job:
  nothing scraped yet, stage \<open>scraping\<close> at 10 percent, no timer running.
\<close>

definition started :: "bool \<Rightarrow> client" where
  "started testMode =
     \<lparr>processingStatus =
        \<lparr>stage = Scraping, progress = Some (JNum 10),
         message = Some (JStr (if testMode then ''Starting test scrape...''
                               else ''Starting enhanced web scraping job...''))\<rparr>,
      scrapedData = None, interval_active = False, poll_times = []\<rparr>"

text \<open>
  The text that React puts on the page for \<open>{processingStatus.message}\<close>, the child
  of the status line and of the error alert: a string as it is, a number in decimal,
  nothing for \<open>undefined\<close>, \<open>null\<close> and booleans, the children of an array one after
  the other; an object is not a valid child, and rendering throws.
\<close>

definition invalid_child_message :: string where
  "invalid_child_message = ''Objects are not valid as a React child''"

fun react_text :: "json \<Rightarrow> thrown + string" where
  "react_text JNull = Inr []"
| "react_text (JBool b) = Inr []"
| "react_text (JNum n) = Inr (dec_int n)"
| "react_text (JStr s) = Inr s"
| "react_text (JArr xs) =
     (case collect (map react_text xs) of Inl t \<Rightarrow> Inl t | Inr ss \<Rightarrow> Inr (concat ss))"
| "react_text (JObj kvs) = Inl (ErrorObj invalid_child_message)"

fun displayed :: "json option \<Rightarrow> thrown + string" where
  "displayed None = Inr []"
| "displayed (Some v) = react_text v"

section \<open>The quality scorer\<close>

record CleanedContent =
  cc_text :: string
  stages_applied :: "string list"
  word_count :: nat

record Subscores =
  length_score :: real
  structure_score :: real
  vocabulary_score :: real
  indicators_score :: real
  readability_score :: real

record QualityScore =
  total :: real
  subscores :: Subscores

text \<open>
  Modelled from the spec: the quality scorer \<open>score(cleaned_content)\<close> of the Python
  backend, whose code is not among the sources. The spec fixes the weights (length 30%,
  structure 25%, vocabulary 20%, indicators 15%, readability 10%), that the subscores are
  computed independently of each other and then weighted and summed, and that the total
  is clamped to [0, 100] after the summation. It does not fix how each subscore is
  computed, so the five subscore functions are parameters.
\<close>

record scorer =
  length_of :: "CleanedContent \<Rightarrow> real"
  structure_of :: "CleanedContent \<Rightarrow> real"
  vocabulary_of :: "CleanedContent \<Rightarrow> real"
  indicators_of :: "CleanedContent \<Rightarrow> real"
  readability_of :: "CleanedContent \<Rightarrow> real"

definition weighted_sum :: "Subscores \<Rightarrow> real" where
  "weighted_sum s =
     30 / 100 * length_score s + 25 / 100 * structure_score s + 20 / 100 * vocabulary_score s
     + 15 / 100 * indicators_score s + 10 / 100 * readability_score s"

definition clamp_score :: "real \<Rightarrow> real" where
  "clamp_score x = max 0 (min 100 x)"

definition score :: "scorer \<Rightarrow> CleanedContent \<Rightarrow> QualityScore" where
  "score sc c =
     (let s = \<lparr>length_score = length_of sc c, structure_score = structure_of sc c,
               vocabulary_score = vocabulary_of sc c, indicators_score = indicators_of sc c,
               readability_score = readability_of sc c\<rparr>
      in \<lparr>total = clamp_score (weighted_sum s), subscores = s\<rparr>)"

section \<open>Example surroundings\<close>

text \<open>
  A concrete environment for running the routes on examples: no environment variable
  for the backend address, an API key, a stand-in URL parser that accepts exactly the
  strings starting with \<open>https://\<close>, a backend that answers every request with status
  200 and a job id, and a text-generation service that streams a text.
\<close>

definition example_env :: env where
  "example_env =
     \<lparr>env_PYTHON_API_URL = None,
      env_GOOGLE_GENERATIVE_AI_API_KEY = Some ''key'',
      url_parses = (\<lambda>s. take 8 s = ''https://''),
      fetch = (\<lambda>req. Inr \<lparr>bs_status = 200,
                              bs_json = Inr (JObj [(''job_id'', JStr ''job-1'')]),
                              bs_text = Inr ''url,title''\<rparr>),
      streamText = (\<lambda>call. Inr [TextPart ''Hello'']),
      error_stack = (\<lambda>m. Some (''Error: '' @ m))\<rparr>"

text \<open>A backend that answers every request with the given status and JSON body.\<close>

definition answering :: "nat \<Rightarrow> json \<Rightarrow> backend_request \<Rightarrow> thrown + backend_response" where
  "answering st j req = Inr \<lparr>bs_status = st, bs_json = Inr j, bs_text = Inr []\<rparr>"

section \<open>Auxiliary facts\<close>

lemma property_or_throw_cases:
  "property_or_throw b k = (if b = JNull then Inl (ErrorObj null_property_message) else Inr (property b k))"
  by (cases b) auto

lemma property_or_throw_not_null: "b \<noteq> JNull \<Longrightarrow> property_or_throw b k = Inr (property b k)"
  by (cases b) auto

lemma chat_error_body_shape: "\<exists>msg rest. chat_error_body e t = JObj ((''error'', JStr msg) # rest)"
  by (cases t) auto

lemma foldl_apply_effect_poll_times: "poll_times (foldl apply_effect c es) = poll_times c"
proof (induction es arbitrary: c)
  case Nil
  show ?case by simp
next
  case (Cons x es)
  show ?case by (cases x) (simp_all add: Cons.IH)
qed

lemma foldl_apply_effect_active:
  "interval_active (foldl apply_effect c es) = (interval_active c \<and> ClearInterval \<notin> set es)"
proof (induction es arbitrary: c)
  case Nil
  show ?case by simp
next
  case (Cons x es)
  show ?case by (cases x) (auto simp: Cons.IH)
qed

lemma on_poll_poll_times: "poll_times (on_poll tm now sr c) = poll_times c"
  by (simp add: on_poll_def foldl_apply_effect_poll_times)

lemma on_poll_active:
  "interval_active (on_poll tm now sr c)
     = (interval_active c \<and> ClearInterval \<notin> set (poll_effects tm now sr))"
  by (simp add: on_poll_def foldl_apply_effect_active)

lemma poll_failed_clears: "ClearInterval \<in> set poll_failed"
  by (simp add: poll_failed_def)

lemma clear_interval_iff:
  "ClearInterval \<in> set (poll_effects tm now sr) \<longleftrightarrow>
     \<not> (\<exists>r sd. sr = Inr r \<and> ok r \<and> bs_json r = Inr sd \<and> sd \<noteq> JNull
            \<and> property sd ''status'' \<noteq> Some (JStr ''error'')
            \<and> \<not> (property sd ''status'' = Some (JStr ''completed'')
                   \<and> truthy_opt (property sd ''result'')))"
proof (cases sr)
  case (Inl t)
  then show ?thesis by (simp add: poll_effects_def poll_failed_clears)
next
  case (Inr r)
  show ?thesis
  proof (cases "ok r")
    case False
    with Inr show ?thesis by (simp add: poll_effects_def poll_failed_clears)
  next
    case True
    show ?thesis
    proof (cases "bs_json r")
      case (Inl t)
      with Inr True show ?thesis by (simp add: poll_effects_def poll_failed_clears)
    next
      case sd: (Inr sd)
      show ?thesis
      proof (cases "sd = JNull")
        case True
        with Inr \<open>ok r\<close> sd show ?thesis by (simp add: poll_effects_def poll_failed_clears)
      next
        case False
        with Inr \<open>ok r\<close> sd show ?thesis
          by (simp add: poll_effects_def Let_def property_or_throw_cases)
      qed
    qed
  qed
qed

lemma poll_loop_spec:
  "interval_active c \<Longrightarrow> 1 \<le> k \<Longrightarrow> k \<le> 151 \<Longrightarrow>
   \<exists>n. k - 1 \<le> n \<and> n \<le> 150
     \<and> poll_times (poll_loop tm clock st k c)
         = poll_times c @ map (\<lambda>j. POLL_INTERVAL_MS * j) [k..<Suc n]
     \<and> \<not> interval_active (poll_loop tm clock st k c)
     \<and> (\<forall>j. k \<le> j \<and> j < n \<longrightarrow>
           ClearInterval \<notin> set (poll_effects tm (clock (POLL_INTERVAL_MS * j)) (st j)))
     \<and> (n < 150 \<longrightarrow> k \<le> n
           \<and> ClearInterval \<in> set (poll_effects tm (clock (POLL_INTERVAL_MS * n)) (st n)))"
proof (induction tm clock st k c rule: poll_loop.induct)
  case (1 tm clock st k c)
  let ?c1 = "on_poll tm (clock (POLL_INTERVAL_MS * k)) (st k)
               (c\<lparr>poll_times := poll_times c @ [POLL_INTERVAL_MS * k]\<rparr>)"
  show ?case
  proof (cases "GIVE_UP_MS < POLL_INTERVAL_MS * k")
    case True
    with "1.prems" have k: "k = 151"
      by (simp add: GIVE_UP_MS_def POLL_INTERVAL_MS_def)
    from True "1.prems"(1)
    have "poll_loop tm clock st k c = c\<lparr>interval_active := False\<rparr>"
      by (subst poll_loop.simps) simp
    with k show ?thesis
      by (intro exI [of _ 150]) auto
  next
    case False
    then have k: "k \<le> 150"
      by (simp add: GIVE_UP_MS_def POLL_INTERVAL_MS_def)
    from False "1.prems"(1)
    have step: "poll_loop tm clock st k c = poll_loop tm clock st (Suc k) ?c1"
      by (subst poll_loop.simps) simp
    have times1: "poll_times ?c1 = poll_times c @ [POLL_INTERVAL_MS * k]"
      by (simp add: on_poll_poll_times)
    show ?thesis
    proof (cases "ClearInterval \<in> set (poll_effects tm (clock (POLL_INTERVAL_MS * k)) (st k))")
      case True
      then have inactive: "\<not> interval_active ?c1"
        by (simp add: on_poll_active)
      then have "poll_loop tm clock st (Suc k) ?c1 = ?c1"
        by (subst poll_loop.simps) simp
      with step have res: "poll_loop tm clock st k c = ?c1"
        by simp
      have times0: "poll_times ?c1 = poll_times c @ map (\<lambda>j. POLL_INTERVAL_MS * j) [k..<Suc k]"
        by (simp add: times1)
      have none: "\<forall>j. k \<le> j \<and> j < k \<longrightarrow>
           ClearInterval \<notin> set (poll_effects tm (clock (POLL_INTERVAL_MS * j)) (st j))"
        by auto
      have low: "k - 1 \<le> k"
        by simp
      from low k times0 inactive none True show ?thesis
        unfolding res by blast
    next
      case noclear: False
      with "1.prems"(1) have active: "interval_active ?c1"
        by (simp add: on_poll_active)
      from "1.IH" [OF _ \<open>\<not> GIVE_UP_MS < POLL_INTERVAL_MS * k\<close> active] "1.prems"(1) k
      obtain n where n: "k \<le> n" "n \<le> 150"
        and times: "poll_times (poll_loop tm clock st (Suc k) ?c1)
                      = poll_times ?c1 @ map (\<lambda>j. POLL_INTERVAL_MS * j) [Suc k..<Suc n]"
        and off: "\<not> interval_active (poll_loop tm clock st (Suc k) ?c1)"
        and before: "\<forall>j. Suc k \<le> j \<and> j < n \<longrightarrow>
           ClearInterval \<notin> set (poll_effects tm (clock (POLL_INTERVAL_MS * j)) (st j))"
        and last: "n < 150 \<longrightarrow> Suc k \<le> n
           \<and> ClearInterval \<in> set (poll_effects tm (clock (POLL_INTERVAL_MS * n)) (st n))"
        by auto
      have upt: "[k..<Suc n] = k # [Suc k..<Suc n]"
        using n(1) by (simp add: upt_conv_Cons)
      have before': "\<forall>j. k \<le> j \<and> j < n \<longrightarrow>
           ClearInterval \<notin> set (poll_effects tm (clock (POLL_INTERVAL_MS * j)) (st j))"
      proof (intro allI impI)
        fix j assume j: "k \<le> j \<and> j < n"
        show "ClearInterval \<notin> set (poll_effects tm (clock (POLL_INTERVAL_MS * j)) (st j))"
        proof (cases "j = k")
          case True
          with noclear show ?thesis by simp
        next
          case False
          with j before show ?thesis by simp
        qed
      qed
      have times': "poll_times (poll_loop tm clock st (Suc k) ?c1)
                      = poll_times c @ map (\<lambda>j. POLL_INTERVAL_MS * j) [k..<Suc n]"
        unfolding times times1 upt by (simp del: upt_Suc)
      from n have low: "k - 1 \<le> n"
        by simp
      from last n have last': "n < 150 \<longrightarrow> k \<le> n
           \<and> ClearInterval \<in> set (poll_effects tm (clock (POLL_INTERVAL_MS * n)) (st n))"
        by simp
      from low n(2) times' off before' last' show ?thesis
        unfolding step by blast
    qed
  qed
qed









lemma dec_nat_not_empty: "dec_nat n \<noteq> []"
  by (subst dec_nat.simps) simp

lemma dec_int_not_empty: "dec_int i \<noteq> []"
  by (simp add: dec_int_def dec_nat_not_empty)

lemma isArray_truthy: "isArray m \<Longrightarrow> truthy_opt m"
  by (erule isArray.elims) simp_all

lemma key_present:
  "truthy_opt (map_option JStr (env_GOOGLE_GENERATIVE_AI_API_KEY e))
     = (\<exists>k. env_GOOGLE_GENERATIVE_AI_API_KEY e = Some k \<and> k \<noteq> [])"
  by (cases "env_GOOGLE_GENERATIVE_AI_API_KEY e") auto

lemma chat_try_body:
  "b \<noteq> JNull \<Longrightarrow>
   chat_try e (Inr b) =
     (if \<not> isArray (property b ''messages'') then
        (Inr (Response_json (JObj [(''error'', JStr ''Invalid messages format'')]) 400), [])
      else
        (case systemPrompt (property b ''scrapedContent'') of
           Inl t \<Rightarrow> (Inl t, [])
         | Inr prompt \<Rightarrow>
            if \<not> (\<exists>k. env_GOOGLE_GENERATIVE_AI_API_KEY e = Some k \<and> k \<noteq> []) then
              (Inr (Response_json (JObj [(''error'', JStr ''AI service not configured'')]) 500), [])
            else
              (case streamText e \<lparr>mc_model = ''gemini-2.0-flash-exp'', mc_system = prompt,
                                   mc_messages = property b ''messages'', mc_temperature = 7 / 10,
                                   mc_maxTokens = 1000\<rparr> of
                 Inl t \<Rightarrow> (Inl t, [\<lparr>mc_model = ''gemini-2.0-flash-exp'', mc_system = prompt,
                                   mc_messages = property b ''messages'', mc_temperature = 7 / 10,
                                   mc_maxTokens = 1000\<rparr>])
               | Inr stream \<Rightarrow>
                  (Inr \<lparr>status = 200, headers = [], content = DataStream stream\<rparr>,
                   [\<lparr>mc_model = ''gemini-2.0-flash-exp'', mc_system = prompt,
                     mc_messages = property b ''messages'', mc_temperature = 7 / 10,
                     mc_maxTokens = 1000\<rparr>]))))"
  using isArray_truthy [of "property b ''messages''"]
  by (auto simp: chat_try_def Let_def property_or_throw_not_null key_present
           split: sum.splits)

lemma chat_try_null: "chat_try e (Inr JNull) = (Inl (ErrorObj null_property_message), [])"
  by (simp add: chat_try_def)

lemma systemPrompt_grounded:
  "systemPrompt sc = Inr p \<Longrightarrow>
   (\<forall>s. sc = Some (JStr s) \<and> s \<noteq> [] \<longrightarrow> (\<exists>pre post. p = pre @ s @ post))
   \<and> (\<not> truthy_opt sc \<longrightarrow> p = fallback_prompt)"
proof (cases sc)
  case None
  assume "systemPrompt sc = Inr p"
  with None show ?thesis by simp
next
  case (Some v)
  assume p: "systemPrompt sc = Inr p"
  show ?thesis
  proof (intro conjI allI impI)
    fix s assume "sc = Some (JStr s) \<and> s \<noteq> []"
    with p have "p = prompt_before_content @ s @ prompt_after_content"
      by auto
    then show "\<exists>pre post. p = pre @ s @ post"
      by blast
  next
    assume "\<not> truthy_opt sc"
    with p Some show "p = fallback_prompt"
      by simp
  qed
qed

lemma systemPrompt_string:
  "\<not> truthy_opt sc \<or> (\<exists>s. sc = Some (JStr s)) \<Longrightarrow> \<exists>p. systemPrompt sc = Inr p"
  by (cases sc) auto

section \<open>The scrape route and custom instructions\<close>

text \<open>
  C1. The claim: the body that the scrape route forwards to the backend's job-creation
  service includes the client's custom instructions. Run on the request that the client
  component sends for a full scrape with instructions, the scrape route forwards a body
  with \<open>url\<close> and \<open>max_pages\<close> only; the test-scrape route, given the same form data,
  forwards the instructions.
\<close>

theorem scrape_drops_custom_instructions:
  "snd (scrape_POST example_env (Inr (payload False ''https://example.com'' ''Extract prices only'')))
     = [\<lparr>br_method = POST, br_url = ''http://localhost:8000/scrape'',
         br_headers = [(''Content-Type'', ''application/json'')],
         br_body = Some (JObj [(''url'', JStr ''https://example.com''), (''max_pages'', JNum 5)])\<rparr>]
   \<and> snd (test_scrape_POST example_env (Inr (payload True ''https://example.com'' ''Extract prices only'')))
     = [\<lparr>br_method = POST, br_url = ''http://localhost:8000/test-scrape'',
         br_headers = [(''Content-Type'', ''application/json'')],
         br_body = Some (JObj [(''url'', JStr ''https://example.com''),
                               (''custom_instructions'', JStr ''Extract prices only'')])\<rparr>]"
  by (simp add: scrape_POST_def scrape_try_def test_scrape_POST_def test_scrape_try_def
      payload_def example_env_def PYTHON_API_URL_def json_headers_def ok_def Let_def
      new_URL_returns_def)

section \<open>Requests without a usable URL\<close>




section \<open>What the polling callback records\<close>

text \<open>
  C3, as amended. For every outcome of a status request: the callback records scraped
  data only when the response was read, its status is \<open>completed\<close> and its \<open>result\<close> is
  present (and truthy), and then it records the data built from that result. When the
  status is \<open>error\<close>, no scraped data is recorded, the stage shown is \<open>error\<close>, and the
  message is \<open>statusData.error\<close> when that is truthy and \<open>Scraping failed\<close> otherwise;
  the text displayed for it is not empty when \<open>statusData.error\<close> is absent, falsy, a
  string or a number.
\<close>

theorem poll_records_result_only_when_completed:
  "(\<forall>d. SetScrapedData d \<in> set (poll_effects tm now sr) \<longrightarrow>
       (\<exists>r sd res. sr = Inr r \<and> ok r \<and> bs_json r = Inr sd
          \<and> property sd ''status'' = Some (JStr ''completed'')
          \<and> property sd ''result'' = Some res \<and> truthy res \<and> d = scraped_of tm now res))
   \<and> (\<forall>r sd res. sr = Inr r \<and> ok r \<and> bs_json r = Inr sd
          \<and> property sd ''status'' = Some (JStr ''completed'')
          \<and> property sd ''result'' = Some res \<and> truthy res \<longrightarrow>
        scrapedData (on_poll tm now sr c) = Some (scraped_of tm now res))
   \<and> (\<forall>r sd. sr = Inr r \<and> ok r \<and> bs_json r = Inr sd
          \<and> property sd ''status'' = Some (JStr ''error'') \<longrightarrow>
        (\<forall>d. SetScrapedData d \<notin> set (poll_effects tm now sr))
        \<and> scrapedData (on_poll tm now sr c) = scrapedData c
        \<and> stage (processingStatus (on_poll tm now sr c)) = Error
        \<and> (\<not> truthy_opt (property sd ''error'') \<longrightarrow>
             message (processingStatus (on_poll tm now sr c)) = Some (JStr ''Scraping failed''))
        \<and> (\<forall>v. property sd ''error'' = Some v \<and> truthy v \<longrightarrow>
             message (processingStatus (on_poll tm now sr c)) = Some v)
        \<and> (\<not> truthy_opt (property sd ''error'')
             \<or> (\<exists>s. property sd ''error'' = Some (JStr s))
             \<or> (\<exists>n. property sd ''error'' = Some (JNum n)) \<longrightarrow>
             (\<exists>text. displayed (message (processingStatus (on_poll tm now sr c))) = Inr text
                    \<and> text \<noteq> [])))"
proof (intro conjI allI impI)
  fix d assume d: "SetScrapedData d \<in> set (poll_effects tm now sr)"
  show "\<exists>r sd res. sr = Inr r \<and> ok r \<and> bs_json r = Inr sd
          \<and> property sd ''status'' = Some (JStr ''completed'')
          \<and> property sd ''result'' = Some res \<and> truthy res \<and> d = scraped_of tm now res"
  proof (cases sr)
    case (Inl t)
    with d show ?thesis by (simp add: poll_effects_def poll_failed_def)
  next
    case (Inr r)
    show ?thesis
    proof (cases "ok r")
      case False
      with Inr d show ?thesis by (simp add: poll_effects_def poll_failed_def)
    next
      case True
      show ?thesis
      proof (cases "bs_json r")
        case (Inl t)
        with Inr True d show ?thesis by (simp add: poll_effects_def poll_failed_def)
      next
        case sd: (Inr sd)
        show ?thesis
        proof (cases "property sd ''result''")
          case None
          with Inr True sd d show ?thesis
            by (simp add: poll_effects_def poll_failed_def Let_def property_or_throw_cases
                split: if_splits)
        next
          case (Some res)
          with Inr True sd d show ?thesis
            by (simp add: poll_effects_def poll_failed_def Let_def property_or_throw_cases
                split: if_splits)
        qed
      qed
    qed
  qed
next
  fix r sd res
  assume a: "sr = Inr r \<and> ok r \<and> bs_json r = Inr sd
          \<and> property sd ''status'' = Some (JStr ''completed'')
          \<and> property sd ''result'' = Some res \<and> truthy res"
  then have "sd \<noteq> JNull" by auto
  with a show "scrapedData (on_poll tm now sr c) = Some (scraped_of tm now res)"
    by (simp add: on_poll_def poll_effects_def Let_def property_or_throw_cases)
next
  fix r sd d
  assume a: "sr = Inr r \<and> ok r \<and> bs_json r = Inr sd
          \<and> property sd ''status'' = Some (JStr ''error'')"
  then have "sd \<noteq> JNull" by auto
  with a show "SetScrapedData d \<notin> set (poll_effects tm now sr)"
    by (simp add: poll_effects_def Let_def property_or_throw_cases)
next
  fix r sd
  assume a: "sr = Inr r \<and> ok r \<and> bs_json r = Inr sd
          \<and> property sd ''status'' = Some (JStr ''error'')"
  then have "sd \<noteq> JNull" by auto
  with a show "scrapedData (on_poll tm now sr c) = scrapedData c"
    by (simp add: on_poll_def poll_effects_def Let_def property_or_throw_cases)
next
  fix r sd
  assume a: "sr = Inr r \<and> ok r \<and> bs_json r = Inr sd
          \<and> property sd ''status'' = Some (JStr ''error'')"
  then have "sd \<noteq> JNull" by auto
  with a show "stage (processingStatus (on_poll tm now sr c)) = Error"
    by (simp add: on_poll_def poll_effects_def Let_def property_or_throw_cases)
next
  fix r sd
  assume a: "sr = Inr r \<and> ok r \<and> bs_json r = Inr sd
          \<and> property sd ''status'' = Some (JStr ''error'')"
    and f: "\<not> truthy_opt (property sd ''error'')"
  from a have "sd \<noteq> JNull" by auto
  with a have "message (processingStatus (on_poll tm now sr c))
                 = Some (js_or (property sd ''error'') (JStr ''Scraping failed''))"
    by (simp add: on_poll_def poll_effects_def Let_def property_or_throw_cases)
  with f show "message (processingStatus (on_poll tm now sr c)) = Some (JStr ''Scraping failed'')"
    by (cases "property sd ''error''") auto
next
  fix r sd v
  assume a: "sr = Inr r \<and> ok r \<and> bs_json r = Inr sd
          \<and> property sd ''status'' = Some (JStr ''error'')"
    and v: "property sd ''error'' = Some v \<and> truthy v"
  from a have "sd \<noteq> JNull" by auto
  with a have "message (processingStatus (on_poll tm now sr c))
                 = Some (js_or (property sd ''error'') (JStr ''Scraping failed''))"
    by (simp add: on_poll_def poll_effects_def Let_def property_or_throw_cases)
  with v show "message (processingStatus (on_poll tm now sr c)) = Some v"
    by simp
next
  fix r sd
  assume a: "sr = Inr r \<and> ok r \<and> bs_json r = Inr sd
          \<and> property sd ''status'' = Some (JStr ''error'')"
    and k: "\<not> truthy_opt (property sd ''error'')
             \<or> (\<exists>s. property sd ''error'' = Some (JStr s))
             \<or> (\<exists>n. property sd ''error'' = Some (JNum n))"
  from a have "sd \<noteq> JNull" by auto
  with a have m: "message (processingStatus (on_poll tm now sr c))
                 = Some (js_or (property sd ''error'') (JStr ''Scraping failed''))"
    by (simp add: on_poll_def poll_effects_def Let_def property_or_throw_cases)
  from k have "\<exists>text. react_text (js_or (property sd ''error'') (JStr ''Scraping failed'')) = Inr text
                  \<and> text \<noteq> []"
    by (cases "property sd ''error''") (auto simp: dec_int_not_empty)
  with m show "\<exists>text. displayed (message (processingStatus (on_poll tm now sr c))) = Inr text
                    \<and> text \<noteq> []"
    by simp
qed

theorem poll_records_result_only_when_completed_witness:
  "scrapedData
     (on_poll False ''2026-01-01T00:00:00.000Z''
        (Inr \<lparr>bs_status = 200,
              bs_json = Inr (JObj [(''status'', JStr ''completed''), (''progress'', JNum 100),
                                   (''result'', JObj [(''url'', JStr ''https://example.com''),
                                                      (''cleanedContent'', JStr ''Hello'')])]),
              bs_text = Inr []\<rparr>)
        (started False))
     = Some \<lparr>sd_url = Some (JStr ''https://example.com''), sd_title = None,
             sd_content = JStr ''Hello'', sd_wordCount = JNum 0, sd_qualityScore = JNum 0,
             sd_timestamp = ''2026-01-01T00:00:00.000Z'', sd_importantLinks = JArr [],
             sd_description = None, sd_pagesScraped = JNum 1, sd_averageQualityScore = None,
             sd_extractionMethod = JStr ''enhanced'', sd_isTestScrape = False,
             sd_customInstructionsApplied = JBool False\<rparr>
   \<and> on_poll False ''2026-01-01T00:00:00.000Z''
        (Inr \<lparr>bs_status = 200,
              bs_json = Inr (JObj [(''status'', JStr ''error''), (''progress'', JNum 0),
                                   (''message'', JStr [])]),
              bs_text = Inr []\<rparr>)
        ((started False)\<lparr>interval_active := True\<rparr>)
     = \<lparr>processingStatus = \<lparr>stage = Error, progress = Some (JNum 0),
                             message = Some (JStr ''Scraping failed'')\<rparr>,
        scrapedData = None, interval_active = False, poll_times = []\<rparr>
   \<and> displayed (Some (JStr ''Scraping failed'')) = Inr ''Scraping failed''"
  using poll_records_result_only_when_completed
    [of False "''2026-01-01T00:00:00.000Z''"
        "Inr \<lparr>bs_status = 200,
              bs_json = Inr (JObj [(''status'', JStr ''error''), (''progress'', JNum 0),
                                   (''message'', JStr [])]),
              bs_text = Inr []\<rparr>"
        "(started False)\<lparr>interval_active := True\<rparr>"]
  by (simp add: on_poll_def poll_effects_def scraped_of_def started_def ok_def Let_def)

text \<open>
  C3, as stated, fails: with status \<open>error\<close> and an \<open>error\<close> that is \<open>true\<close> or an
  empty array, the message is that value, and no text is displayed for it.
\<close>

theorem error_message_displayed_empty:
  "property (JObj [(''status'', JStr ''error''), (''error'', JBool True)]) ''status''
     = Some (JStr ''error'')
   \<and> displayed (message (processingStatus
        (on_poll False ''2026-01-01T00:00:00.000Z''
           (Inr \<lparr>bs_status = 200,
                 bs_json = Inr (JObj [(''status'', JStr ''error''), (''error'', JBool True)]),
                 bs_text = Inr []\<rparr>)
           (started False))))
     = Inr []
   \<and> displayed (message (processingStatus
        (on_poll False ''2026-01-01T00:00:00.000Z''
           (Inr \<lparr>bs_status = 200,
                 bs_json = Inr (JObj [(''status'', JStr ''error''), (''error'', JArr [])]),
                 bs_text = Inr []\<rparr>)
           (started False))))
     = Inr []"
  by (simp add: on_poll_def poll_effects_def started_def ok_def Let_def)

section \<open>When polling stops\<close>

text \<open>
  C4, as amended. The status requests go out at 2000, 4000, ... milliseconds, at most
  150 of them and none later than 300000 ms, and afterwards the interval is cleared.
  Every request before the last one was answered by a readable response whose status is
  not \<open>error\<close> and not \<open>completed\<close> with a result; and when fewer than 150 requests
  went out, the last one failed or reported \<open>error\<close> or \<open>completed\<close> with a result.
  So polling stops at the first failure, the first \<open>error\<close>, or the first
  \<open>completed\<close> that carries a result, and in any case at the give-up bound.
\<close>

theorem polling_stops:
  "\<exists>n\<le>150.
      poll_times (start_polling tm clock st c) = map (\<lambda>k. POLL_INTERVAL_MS * k) [1..<Suc n]
    \<and> \<not> interval_active (start_polling tm clock st c)
    \<and> (\<forall>t \<in> set (poll_times (start_polling tm clock st c)). t \<le> GIVE_UP_MS)
    \<and> (\<forall>k. 1 \<le> k \<and> k < n \<longrightarrow>
          (\<exists>r sd. st k = Inr r \<and> ok r \<and> bs_json r = Inr sd \<and> sd \<noteq> JNull
             \<and> property sd ''status'' \<noteq> Some (JStr ''error'')
             \<and> \<not> (property sd ''status'' = Some (JStr ''completed'')
                    \<and> truthy_opt (property sd ''result''))))
    \<and> (n < 150 \<longrightarrow> 1 \<le> n
          \<and> \<not> (\<exists>r sd. st n = Inr r \<and> ok r \<and> bs_json r = Inr sd \<and> sd \<noteq> JNull
                 \<and> property sd ''status'' \<noteq> Some (JStr ''error'')
                 \<and> \<not> (property sd ''status'' = Some (JStr ''completed'')
                        \<and> truthy_opt (property sd ''result''))))"
proof -
  let ?c0 = "c\<lparr>interval_active := True, poll_times := []\<rparr>"
  have "interval_active ?c0" and "(1::nat) \<le> 1" and "(1::nat) \<le> 151"
    by simp_all
  from poll_loop_spec [OF this, of tm clock st]
  obtain n where n: "n \<le> 150"
    and times: "poll_times (poll_loop tm clock st 1 ?c0)
                  = map (\<lambda>j. POLL_INTERVAL_MS * j) [1..<Suc n]"
    and off: "\<not> interval_active (poll_loop tm clock st 1 ?c0)"
    and before: "\<forall>j. 1 \<le> j \<and> j < n \<longrightarrow>
           ClearInterval \<notin> set (poll_effects tm (clock (POLL_INTERVAL_MS * j)) (st j))"
    and last: "n < 150 \<longrightarrow> 1 \<le> n
           \<and> ClearInterval \<in> set (poll_effects tm (clock (POLL_INTERVAL_MS * n)) (st n))"
    by auto
  have bound: "\<forall>t \<in> set (poll_times (poll_loop tm clock st 1 ?c0)). t \<le> GIVE_UP_MS"
    unfolding times using n
    by (auto simp: GIVE_UP_MS_def POLL_INTERVAL_MS_def simp del: upt_Suc)
  from before have running: "\<forall>k. 1 \<le> k \<and> k < n \<longrightarrow>
          (\<exists>r sd. st k = Inr r \<and> ok r \<and> bs_json r = Inr sd \<and> sd \<noteq> JNull
             \<and> property sd ''status'' \<noteq> Some (JStr ''error'')
             \<and> \<not> (property sd ''status'' = Some (JStr ''completed'')
                    \<and> truthy_opt (property sd ''result'')))"
    unfolding clear_interval_iff by blast
  from last have stopped: "n < 150 \<longrightarrow> 1 \<le> n
          \<and> \<not> (\<exists>r sd. st n = Inr r \<and> ok r \<and> bs_json r = Inr sd \<and> sd \<noteq> JNull
                 \<and> property sd ''status'' \<noteq> Some (JStr ''error'')
                 \<and> \<not> (property sd ''status'' = Some (JStr ''completed'')
                        \<and> truthy_opt (property sd ''result'')))"
    unfolding clear_interval_iff by blast
  from n times off bound running stopped show ?thesis
    unfolding start_polling_def by blast
qed

theorem polling_stops_witness:
  "poll_times
     (start_polling False (\<lambda>t. ''2026-01-01T00:00:00.000Z'')
        (\<lambda>k. if k = 1
              then Inr \<lparr>bs_status = 200,
                        bs_json = Inr (JObj [(''status'', JStr ''running''), (''progress'', JNum 40)]),
                        bs_text = Inr []\<rparr>
              else Inr \<lparr>bs_status = 200,
                        bs_json = Inr (JObj [(''status'', JStr ''error''), (''error'', JStr ''Timeout'')]),
                        bs_text = Inr []\<rparr>)
        (started False))
     = [2000, 4000]
   \<and> \<not> interval_active
       (start_polling False (\<lambda>t. ''2026-01-01T00:00:00.000Z'')
        (\<lambda>k. if k = 1
              then Inr \<lparr>bs_status = 200,
                        bs_json = Inr (JObj [(''status'', JStr ''running''), (''progress'', JNum 40)]),
                        bs_text = Inr []\<rparr>
              else Inr \<lparr>bs_status = 200,
                        bs_json = Inr (JObj [(''status'', JStr ''error''), (''error'', JStr ''Timeout'')]),
                        bs_text = Inr []\<rparr>)
        (started False))"
  using polling_stops [of False "\<lambda>t. ''2026-01-01T00:00:00.000Z''"
        "\<lambda>k. if k = 1
              then Inr \<lparr>bs_status = 200,
                        bs_json = Inr (JObj [(''status'', JStr ''running''), (''progress'', JNum 40)]),
                        bs_text = Inr []\<rparr>
              else Inr \<lparr>bs_status = 200,
                        bs_json = Inr (JObj [(''status'', JStr ''error''), (''error'', JStr ''Timeout'')]),
                        bs_text = Inr []\<rparr>"
        "started False"]
  by (simp add: start_polling_def started_def poll_loop.simps on_poll_def poll_effects_def
      ok_def Let_def GIVE_UP_MS_def POLL_INTERVAL_MS_def)

text \<open>
  C4, as stated, fails: when the backend reports \<open>completed\<close> without a result, the
  callback does not clear the interval, and all 150 requests go out.
\<close>

theorem polling_continues_after_completed:
  "property (JObj [(''status'', JStr ''completed''), (''progress'', JNum 100)]) ''status''
     = Some (JStr ''completed'')
   \<and> poll_times
       (start_polling False (\<lambda>t. ''2026-01-01T00:00:00.000Z'')
          (\<lambda>k. Inr \<lparr>bs_status = 200,
                       bs_json = Inr (JObj [(''status'', JStr ''completed''), (''progress'', JNum 100)]),
                       bs_text = Inr []\<rparr>)
          (started False))
     = map (\<lambda>k. 2000 * k) [1..<151]"
proof -
  let ?st = "\<lambda>k::nat. Inr \<lparr>bs_status = 200,
                       bs_json = Inr (JObj [(''status'', JStr ''completed''), (''progress'', JNum 100)]),
                       bs_text = Inr []\<rparr> :: thrown + backend_response"
  let ?clock = "\<lambda>t::nat. ''2026-01-01T00:00:00.000Z''"
  let ?c0 = "(started False)\<lparr>interval_active := True, poll_times := []\<rparr>"
  have keeps: "ClearInterval \<notin> set (poll_effects False now (?st k))" for now and k :: nat
    by (simp add: clear_interval_iff ok_def)
  have "interval_active ?c0" and "(1::nat) \<le> 1" and "(1::nat) \<le> 151"
    by simp_all
  from poll_loop_spec [OF this, of False ?clock ?st]
  obtain n where n: "n \<le> 150"
    and times: "poll_times (poll_loop False ?clock ?st 1 ?c0)
                  = map (\<lambda>j. POLL_INTERVAL_MS * j) [1..<Suc n]"
    and last: "n < 150 \<longrightarrow> 1 \<le> n
           \<and> ClearInterval \<in> set (poll_effects False (?clock (POLL_INTERVAL_MS * n)) (?st n))"
    by auto
  from last keeps n have "n = 150"
    by (cases "n < 150") auto
  with times show ?thesis
    by (simp add: start_polling_def POLL_INTERVAL_MS_def del: upt_Suc)
qed

section \<open>The quality score is clamped\<close>

text \<open>
  C5. For every cleaned content, \<open>score\<close> is a function of its input (equal inputs give
  equal scores), and its total is the weighted sum of the subscores clamped to the
  interval from 0 to 100.
\<close>

theorem score_clamped:
  "0 \<le> total (score sc c) \<and> total (score sc c) \<le> 100
   \<and> total (score sc c) = clamp_score (weighted_sum (subscores (score sc c)))
   \<and> (c = c' \<longrightarrow> score sc c = score sc c')"
  by (simp add: score_def clamp_score_def Let_def)

theorem score_clamped_witness:
  "total (score \<lparr>length_of = (\<lambda>c. 400), structure_of = (\<lambda>c. real (word_count c)),
                  vocabulary_of = (\<lambda>c. 0), indicators_of = (\<lambda>c. 0), readability_of = (\<lambda>c. 0)\<rparr>
            \<lparr>cc_text = ''a b'', stages_applied = [], word_count = 2\<rparr>) = 100
   \<and> total (score \<lparr>length_of = (\<lambda>c. - 50), structure_of = (\<lambda>c. real (word_count c)),
                  vocabulary_of = (\<lambda>c. 0), indicators_of = (\<lambda>c. 0), readability_of = (\<lambda>c. 0)\<rparr>
            \<lparr>cc_text = ''a b'', stages_applied = [], word_count = 2\<rparr>) = 0"
  using score_clamped [of "\<lparr>length_of = (\<lambda>c. 400), structure_of = (\<lambda>c. real (word_count c)),
                  vocabulary_of = (\<lambda>c. 0), indicators_of = (\<lambda>c. 0), readability_of = (\<lambda>c. 0)\<rparr>"
                  "\<lparr>cc_text = ''a b'', stages_applied = [], word_count = 2\<rparr>"
                  "\<lparr>cc_text = ''a b'', stages_applied = [], word_count = 2\<rparr>"]
  by (simp add: score_def clamp_score_def weighted_sum_def Let_def)

section \<open>The test-scrape route\<close>

text \<open>
  C6, as amended. For every test-scrape request with a truthy \<open>url\<close> whose conversion to
  a string the URL parser accepts, the route sends exactly one request to the backend's
  \<open>/test-scrape\<close>, whose body holds that \<open>url\<close> and \<open>custom_instructions\<close>: the
  supplied \<open>customInstructions\<close> when truthy, \<open>null\<close> when absent or falsy. When the
  backend answers with a success status and a JSON body, the route returns that JSON
  with status 200. In every other case it answers with status 500 and an error message:
  the \<open>detail\<close> of the backend's failure answer when that is a non-empty string,
  \<open>Failed to start test scraping job\<close> when the failure answer has no readable JSON body
  or no truthy \<open>detail\<close>, and the message of the error when the backend is not reached.
\<close>

theorem test_scrape_forwards_once:
  assumes "property b ''url'' = Some u" and "truthy u"
    and "js_String u = Inr s" and "url_parses e s"
  shows "\<exists>ci req.
           req = \<lparr>br_method = POST, br_url = PYTHON_API_URL e @ ''/test-scrape'',
                  br_headers = json_headers,
                  br_body = Some (JObj [(''url'', u), (''custom_instructions'', ci)])\<rparr>
         \<and> snd (test_scrape_POST e (Inr b)) = [req]
         \<and> (\<forall>v. property b ''customInstructions'' = Some v \<and> truthy v \<longrightarrow> ci = v)
         \<and> (\<not> truthy_opt (property b ''customInstructions'') \<longrightarrow> ci = JNull)
         \<and> (\<forall>r data. fetch e req = Inr r \<and> ok r \<and> bs_json r = Inr data \<longrightarrow>
               fst (test_scrape_POST e (Inr b)) = NextResponse_json data 200)
         \<and> (\<forall>r d m. fetch e req = Inr r \<and> \<not> ok r \<and> bs_json r = Inr d
                  \<and> property d ''detail'' = Some (JStr m) \<and> m \<noteq> [] \<longrightarrow>
               fst (test_scrape_POST e (Inr b))
                 = NextResponse_json (JObj [(''error'', JStr m)]) 500)
         \<and> (\<forall>r. fetch e req = Inr r \<and> \<not> ok r
                  \<and> (\<forall>d. bs_json r = Inr d \<longrightarrow> d \<noteq> JNull \<and> \<not> truthy_opt (property d ''detail'')) \<longrightarrow>
               fst (test_scrape_POST e (Inr b))
                 = NextResponse_json
                     (JObj [(''error'', JStr ''Failed to start test scraping job'')]) 500)
         \<and> (\<forall>t. fetch e req = Inl t \<longrightarrow>
               fst (test_scrape_POST e (Inr b))
                 = NextResponse_json
                     (JObj [(''error'', JStr (error_message t ''Failed to start test scrape''))]) 500)
         \<and> (\<not> (\<exists>r data. fetch e req = Inr r \<and> ok r \<and> bs_json r = Inr data) \<longrightarrow>
               status (fst (test_scrape_POST e (Inr b))) = 500
               \<and> (\<exists>msg. content (fst (test_scrape_POST e (Inr b)))
                           = JsonBody (JObj [(''error'', JStr msg)])))"
proof -
  from assms(1) have nn: "b \<noteq> JNull"
    by (cases b) auto
  let ?ci = "js_or (property b ''customInstructions'') JNull"
  let ?req = "\<lparr>br_method = POST, br_url = PYTHON_API_URL e @ ''/test-scrape'',
                br_headers = json_headers,
                br_body = Some (JObj [(''url'', u), (''custom_instructions'', ?ci)])\<rparr>"
  from assms have valid: "new_URL_returns e u"
    by (simp add: new_URL_returns_def)
  have tr: "test_scrape_try e (Inr b) =
      (case fetch e ?req of
         Inl t \<Rightarrow> (Inl t, [?req])
       | Inr r \<Rightarrow>
          if \<not> ok r then (Inl (detail_error r ''Failed to start test scraping job''), [?req])
          else (case bs_json r of
                  Inl t \<Rightarrow> (Inl t, [?req])
                | Inr data \<Rightarrow> (Inr (NextResponse_json data 200), [?req])))"
    using assms(1,2) valid nn
    by (simp add: test_scrape_try_def Let_def property_or_throw_not_null)
  have calls: "snd (test_scrape_POST e (Inr b)) = [?req]"
    by (simp add: test_scrape_POST_def tr split: sum.splits)
  have ci1: "\<forall>v. property b ''customInstructions'' = Some v \<and> truthy v \<longrightarrow> ?ci = v"
    by auto
  have ci2: "\<not> truthy_opt (property b ''customInstructions'') \<longrightarrow> ?ci = JNull"
    by (cases "property b ''customInstructions''") auto
  have good: "\<forall>r data. fetch e ?req = Inr r \<and> ok r \<and> bs_json r = Inr data \<longrightarrow>
               fst (test_scrape_POST e (Inr b)) = NextResponse_json data 200"
    by (simp add: test_scrape_POST_def tr)
  have detail: "\<forall>r d m. fetch e ?req = Inr r \<and> \<not> ok r \<and> bs_json r = Inr d
                  \<and> property d ''detail'' = Some (JStr m) \<and> m \<noteq> [] \<longrightarrow>
               fst (test_scrape_POST e (Inr b))
                 = NextResponse_json (JObj [(''error'', JStr m)]) 500"
  proof (intro allI impI)
    fix r d m
    assume a: "fetch e ?req = Inr r \<and> \<not> ok r \<and> bs_json r = Inr d
                  \<and> property d ''detail'' = Some (JStr m) \<and> m \<noteq> []"
    then have "d \<noteq> JNull" by (cases d) auto
    with a have "detail_error r ''Failed to start test scraping job'' = ErrorObj m"
      by (simp add: detail_error_def property_or_throw_not_null)
    with a show "fst (test_scrape_POST e (Inr b))
                 = NextResponse_json (JObj [(''error'', JStr m)]) 500"
      by (simp add: test_scrape_POST_def tr)
  qed
  have nodetail: "\<forall>r. fetch e ?req = Inr r \<and> \<not> ok r
                  \<and> (\<forall>d. bs_json r = Inr d \<longrightarrow> d \<noteq> JNull \<and> \<not> truthy_opt (property d ''detail'')) \<longrightarrow>
               fst (test_scrape_POST e (Inr b))
                 = NextResponse_json
                     (JObj [(''error'', JStr ''Failed to start test scraping job'')]) 500"
  proof (intro allI impI)
    fix r
    assume a: "fetch e ?req = Inr r \<and> \<not> ok r
                  \<and> (\<forall>d. bs_json r = Inr d \<longrightarrow> d \<noteq> JNull \<and> \<not> truthy_opt (property d ''detail''))"
    have "detail_error r ''Failed to start test scraping job''
            = ErrorObj ''Failed to start test scraping job''"
    proof (cases "bs_json r")
      case (Inl t)
      then show ?thesis by (simp add: detail_error_def)
    next
      case (Inr d)
      with a have "d \<noteq> JNull" and "\<not> truthy_opt (property d ''detail'')" by auto
      with Inr show ?thesis
        by (cases "property d ''detail''")
           (simp_all add: detail_error_def property_or_throw_not_null)
    qed
    with a show "fst (test_scrape_POST e (Inr b))
                 = NextResponse_json
                     (JObj [(''error'', JStr ''Failed to start test scraping job'')]) 500"
      by (simp add: test_scrape_POST_def tr)
  qed
  have unreachable: "\<forall>t. fetch e ?req = Inl t \<longrightarrow>
               fst (test_scrape_POST e (Inr b))
                 = NextResponse_json
                     (JObj [(''error'', JStr (error_message t ''Failed to start test scrape''))]) 500"
    by (simp add: test_scrape_POST_def tr)
  have other: "\<not> (\<exists>r data. fetch e ?req = Inr r \<and> ok r \<and> bs_json r = Inr data) \<longrightarrow>
               status (fst (test_scrape_POST e (Inr b))) = 500
               \<and> (\<exists>msg. content (fst (test_scrape_POST e (Inr b)))
                           = JsonBody (JObj [(''error'', JStr msg)]))"
    by (auto simp: test_scrape_POST_def tr NextResponse_json_def split: sum.splits)
  from calls ci1 ci2 good detail nodetail unreachable other show ?thesis
    by blast
qed

theorem test_scrape_forwards_once_witness:
  "test_scrape_POST example_env
          (Inr (JObj [(''url'', JStr ''https://example.com''), (''customInstructions'', JStr ''Only prices'')]))
     = (\<lparr>status = 200, headers = [(''content-type'', ''application/json'')],
         content = JsonBody (JObj [(''job_id'', JStr ''job-1'')])\<rparr>,
        [\<lparr>br_method = POST, br_url = ''http://localhost:8000/test-scrape'',
          br_headers = [(''Content-Type'', ''application/json'')],
          br_body = Some (JObj [(''url'', JStr ''https://example.com''),
                                (''custom_instructions'', JStr ''Only prices'')])\<rparr>])
   \<and> snd (test_scrape_POST example_env (Inr (JObj [(''url'', JStr ''https://example.com'')])))
     = [\<lparr>br_method = POST, br_url = ''http://localhost:8000/test-scrape'',
         br_headers = [(''Content-Type'', ''application/json'')],
         br_body = Some (JObj [(''url'', JStr ''https://example.com''),
                               (''custom_instructions'', JNull)])\<rparr>]
   \<and> fst (test_scrape_POST (example_env\<lparr>fetch := answering 422 (JObj [])\<rparr>)
              (Inr (JObj [(''url'', JStr ''https://example.com'')])))
     = \<lparr>status = 500, headers = [(''content-type'', ''application/json'')],
        content = JsonBody (JObj [(''error'', JStr ''Failed to start test scraping job'')])\<rparr>"
proof -
  have "property (JObj [(''url'', JStr ''https://example.com''), (''customInstructions'', JStr ''Only prices'')]) ''url''
          = Some (JStr ''https://example.com'')"
    and "truthy (JStr ''https://example.com'')"
    and "js_String (JStr ''https://example.com'') = Inr ''https://example.com''"
    and "url_parses example_env ''https://example.com''"
    by (simp_all add: example_env_def)
  from test_scrape_forwards_once [OF this] show ?thesis
    by (simp add: test_scrape_POST_def test_scrape_try_def NextResponse_json_def Let_def
        example_env_def PYTHON_API_URL_def json_headers_def ok_def new_URL_returns_def
        answering_def detail_error_def)
qed

text \<open>
  C6, as stated, fails: when the backend answers 503 with a \<open>detail\<close>, the route does
  not return the backend's JSON, but status 500 and an \<open>error\<close> made from the detail.
\<close>

theorem test_scrape_backend_failure_not_relayed:
  "fst (test_scrape_POST
         (example_env\<lparr>fetch := answering 503 (JObj [(''detail'', JStr ''Scraper unavailable'')])\<rparr>)
         (Inr (JObj [(''url'', JStr ''https://example.com'')])))
     = \<lparr>status = 500, headers = [(''content-type'', ''application/json'')],
        content = JsonBody (JObj [(''error'', JStr ''Scraper unavailable'')])\<rparr>
   \<and> content (fst (test_scrape_POST
         (example_env\<lparr>fetch := answering 503 (JObj [(''detail'', JStr ''Scraper unavailable'')])\<rparr>)
         (Inr (JObj [(''url'', JStr ''https://example.com'')]))))
     \<noteq> JsonBody (JObj [(''detail'', JStr ''Scraper unavailable'')])"
  by (simp add: test_scrape_POST_def test_scrape_try_def NextResponse_json_def Let_def
      example_env_def answering_def ok_def detail_error_def new_URL_returns_def)

section \<open>Unknown jobs\<close>

text \<open>
  C7. When the backend answers the status request or the delete request for a job with
  404, the gateway responds with status 404 and the error message \<open>Job not found\<close>.
\<close>

theorem job_not_found:
  "(fetch e \<lparr>br_method = GET, br_url = PYTHON_API_URL e @ ''/scrape/'' @ jobId,
             br_headers = json_headers, br_body = None\<rparr> = Inr r \<and> bs_status r = 404 \<longrightarrow>
      fst (job_GET e jobId) = NextResponse_json (JObj [(''error'', JStr ''Job not found'')]) 404)
   \<and> (fetch e \<lparr>br_method = DELETE, br_url = PYTHON_API_URL e @ ''/scrape/'' @ jobId,
             br_headers = json_headers, br_body = None\<rparr> = Inr r' \<and> bs_status r' = 404 \<longrightarrow>
      fst (job_DELETE e jobId) = NextResponse_json (JObj [(''error'', JStr ''Job not found'')]) 404)"
  by (simp add: job_GET_def job_DELETE_def job_try_def ok_def Let_def)

theorem job_not_found_witness:
  "fst (job_GET (example_env\<lparr>fetch := answering 404 (JObj [(''detail'', JStr ''Job not found'')])\<rparr>) ''no-such-job'')
     = \<lparr>status = 404, headers = [(''content-type'', ''application/json'')],
        content = JsonBody (JObj [(''error'', JStr ''Job not found'')])\<rparr>
   \<and> fst (job_DELETE (example_env\<lparr>fetch := answering 404 (JObj [(''detail'', JStr ''Job not found'')])\<rparr>) ''no-such-job'')
     = \<lparr>status = 404, headers = [(''content-type'', ''application/json'')],
        content = JsonBody (JObj [(''error'', JStr ''Job not found'')])\<rparr>"
  using job_not_found [of "example_env\<lparr>fetch := answering 404 (JObj [(''detail'', JStr ''Job not found'')])\<rparr>"
      "''no-such-job''"
      "\<lparr>bs_status = 404, bs_json = Inr (JObj [(''detail'', JStr ''Job not found'')]), bs_text = Inr []\<rparr>"
      "\<lparr>bs_status = 404, bs_json = Inr (JObj [(''detail'', JStr ''Job not found'')]), bs_text = Inr []\<rparr>"]
  by (simp add: answering_def NextResponse_json_def example_env_def)

section \<open>The chat route\<close>

text \<open>
  C8, as amended. For every chat request: the system prompt of every call to the
  text-generation model contains the supplied \<open>scrapedContent\<close> verbatim when that is a
  non-empty string, and is the fallback prompt when \<open>scrapedContent\<close> is absent or falsy;
  with an array of messages, an API key and a \<open>scrapedContent\<close> that is absent, falsy
  or a string, exactly one call is made. A request whose messages are not an array is answered
  with status 400 and a JSON error; one that finds no API key, whose body cannot be read,
  or for which \<open>streamText\<close> throws, with status 500 and a JSON error. When
  \<open>streamText\<close> returns, the response is its stream with status 200, whatever the parts
  of that stream report. Every response is one of these.
\<close>

theorem chat_grounded_or_error:
  "(\<forall>call \<in> set (snd (chat_POST e (Inr b))).
       (\<forall>s. property b ''scrapedContent'' = Some (JStr s) \<and> s \<noteq> [] \<longrightarrow>
              (\<exists>pre post. mc_system call = pre @ s @ post))
     \<and> (\<not> truthy_opt (property b ''scrapedContent'') \<longrightarrow> mc_system call = fallback_prompt))
   \<and> (isArray (property b ''messages'')
        \<and> (\<exists>k. env_GOOGLE_GENERATIVE_AI_API_KEY e = Some k \<and> k \<noteq> [])
        \<and> (\<not> truthy_opt (property b ''scrapedContent'')
             \<or> (\<exists>s. property b ''scrapedContent'' = Some (JStr s))) \<longrightarrow>
        length (snd (chat_POST e (Inr b))) = 1)
   \<and> (b \<noteq> JNull \<and> \<not> isArray (property b ''messages'') \<longrightarrow>
        chat_POST e (Inr b)
          = (Response_json (JObj [(''error'', JStr ''Invalid messages format'')]) 400, []))
   \<and> (isArray (property b ''messages'')
        \<and> (\<exists>p. systemPrompt (property b ''scrapedContent'') = Inr p)
        \<and> \<not> (\<exists>k. env_GOOGLE_GENERATIVE_AI_API_KEY e = Some k \<and> k \<noteq> []) \<longrightarrow>
        chat_POST e (Inr b)
          = (Response_json (JObj [(''error'', JStr ''AI service not configured'')]) 500, []))
   \<and> (\<forall>t. chat_POST e (Inl t) = (Response_json (chat_error_body e t) 500, []))
   \<and> (\<forall>call t. snd (chat_POST e rq) = [call] \<and> streamText e call = Inl t \<longrightarrow>
          fst (chat_POST e rq) = Response_json (chat_error_body e t) 500)
   \<and> (\<forall>call parts. snd (chat_POST e rq) = [call] \<and> streamText e call = Inr parts \<longrightarrow>
          fst (chat_POST e rq) = \<lparr>status = 200, headers = [], content = DataStream parts\<rparr>)
   \<and> ((\<exists>call parts. snd (chat_POST e rq) = [call] \<and> streamText e call = Inr parts
          \<and> fst (chat_POST e rq) = \<lparr>status = 200, headers = [], content = DataStream parts\<rparr>)
       \<or> ((status (fst (chat_POST e rq)) = 400 \<or> status (fst (chat_POST e rq)) = 500)
           \<and> headers (fst (chat_POST e rq)) = [(''Content-Type'', ''application/json'')]
           \<and> (\<exists>msg rest. content (fst (chat_POST e rq)) = JsonBody (JObj ((''error'', JStr msg) # rest)))))"
proof -
  have grounded: "\<forall>call \<in> set (snd (chat_POST e (Inr b))).
       (\<forall>s. property b ''scrapedContent'' = Some (JStr s) \<and> s \<noteq> [] \<longrightarrow>
              (\<exists>pre post. mc_system call = pre @ s @ post))
     \<and> (\<not> truthy_opt (property b ''scrapedContent'') \<longrightarrow> mc_system call = fallback_prompt)"
  proof (cases "b = JNull")
    case True
    then show ?thesis by (simp add: chat_POST_def chat_try_null)
  next
    case False
    show ?thesis
    proof (cases "systemPrompt (property b ''scrapedContent'')")
      case (Inl t)
      with False show ?thesis by (simp add: chat_POST_def chat_try_body)
    next
      case (Inr p)
      from systemPrompt_grounded [OF Inr] False Inr show ?thesis
        by (simp add: chat_POST_def chat_try_body split: sum.splits)
    qed
  qed
  have one: "isArray (property b ''messages'')
        \<and> (\<exists>k. env_GOOGLE_GENERATIVE_AI_API_KEY e = Some k \<and> k \<noteq> [])
        \<and> (\<not> truthy_opt (property b ''scrapedContent'')
             \<or> (\<exists>s. property b ''scrapedContent'' = Some (JStr s))) \<longrightarrow>
        length (snd (chat_POST e (Inr b))) = 1"
  proof
    assume a: "isArray (property b ''messages'')
        \<and> (\<exists>k. env_GOOGLE_GENERATIVE_AI_API_KEY e = Some k \<and> k \<noteq> [])
        \<and> (\<not> truthy_opt (property b ''scrapedContent'')
             \<or> (\<exists>s. property b ''scrapedContent'' = Some (JStr s)))"
    then have nn: "b \<noteq> JNull" by (cases b) auto
    from a systemPrompt_string obtain p where "systemPrompt (property b ''scrapedContent'') = Inr p"
      by blast
    with a nn show "length (snd (chat_POST e (Inr b))) = 1"
      by (simp add: chat_POST_def chat_try_body split: sum.splits)
  qed
  have bad: "b \<noteq> JNull \<and> \<not> isArray (property b ''messages'') \<longrightarrow>
        chat_POST e (Inr b)
          = (Response_json (JObj [(''error'', JStr ''Invalid messages format'')]) 400, [])"
    by (simp add: chat_POST_def chat_try_body)
  have nokey: "isArray (property b ''messages'')
        \<and> (\<exists>p. systemPrompt (property b ''scrapedContent'') = Inr p)
        \<and> \<not> (\<exists>k. env_GOOGLE_GENERATIVE_AI_API_KEY e = Some k \<and> k \<noteq> []) \<longrightarrow>
        chat_POST e (Inr b)
          = (Response_json (JObj [(''error'', JStr ''AI service not configured'')]) 500, [])"
  proof
    assume a: "isArray (property b ''messages'')
        \<and> (\<exists>p. systemPrompt (property b ''scrapedContent'') = Inr p)
        \<and> \<not> (\<exists>k. env_GOOGLE_GENERATIVE_AI_API_KEY e = Some k \<and> k \<noteq> [])"
    then have nn: "b \<noteq> JNull" by (cases b) auto
    from a obtain p where "systemPrompt (property b ''scrapedContent'') = Inr p"
      by blast
    with a nn show "chat_POST e (Inr b)
          = (Response_json (JObj [(''error'', JStr ''AI service not configured'')]) 500, [])"
      by (simp add: chat_POST_def chat_try_body)
  qed
  have unread: "\<forall>t. chat_POST e (Inl t) = (Response_json (chat_error_body e t) 500, [])"
    by (simp add: chat_POST_def chat_try_def)
  have shape: "(snd (chat_POST e rq) = []
                 \<and> (status (fst (chat_POST e rq)) = 400 \<or> status (fst (chat_POST e rq)) = 500)
                 \<and> headers (fst (chat_POST e rq)) = [(''Content-Type'', ''application/json'')]
                 \<and> (\<exists>msg rest. content (fst (chat_POST e rq)) = JsonBody (JObj ((''error'', JStr msg) # rest))))
             \<or> (\<exists>call. snd (chat_POST e rq) = [call]
                 \<and> (case streamText e call of
                      Inl t \<Rightarrow> fst (chat_POST e rq) = Response_json (chat_error_body e t) 500
                    | Inr parts \<Rightarrow> fst (chat_POST e rq)
                        = \<lparr>status = 200, headers = [], content = DataStream parts\<rparr>))"
  proof (cases rq)
    case (Inl t)
    with chat_error_body_shape [of e t] show ?thesis
      by (auto simp: chat_POST_def chat_try_def Response_json_def)
  next
    case (Inr b')
    show ?thesis
    proof (cases "b' = JNull")
      case True
      with Inr chat_error_body_shape [of e "ErrorObj null_property_message"] show ?thesis
        by (auto simp: chat_POST_def chat_try_null Response_json_def)
    next
      case False
      show ?thesis
      proof (cases "systemPrompt (property b' ''scrapedContent'')")
        case (Inl t)
        with Inr False chat_error_body_shape [of e t] show ?thesis
          by (auto simp: chat_POST_def chat_try_body Response_json_def)
      next
        case p: (Inr p)
        from Inr False p show ?thesis
          by (auto simp: chat_POST_def chat_try_body Response_json_def split: sum.splits)
      qed
    qed
  qed
  have thrown: "\<forall>call t. snd (chat_POST e rq) = [call] \<and> streamText e call = Inl t \<longrightarrow>
          fst (chat_POST e rq) = Response_json (chat_error_body e t) 500"
    using shape by auto
  have streamed: "\<forall>call parts. snd (chat_POST e rq) = [call] \<and> streamText e call = Inr parts \<longrightarrow>
          fst (chat_POST e rq) = \<lparr>status = 200, headers = [], content = DataStream parts\<rparr>"
    using shape by auto
  have either: "(\<exists>call parts. snd (chat_POST e rq) = [call] \<and> streamText e call = Inr parts
          \<and> fst (chat_POST e rq) = \<lparr>status = 200, headers = [], content = DataStream parts\<rparr>)
       \<or> ((status (fst (chat_POST e rq)) = 400 \<or> status (fst (chat_POST e rq)) = 500)
           \<and> headers (fst (chat_POST e rq)) = [(''Content-Type'', ''application/json'')]
           \<and> (\<exists>msg rest. content (fst (chat_POST e rq)) = JsonBody (JObj ((''error'', JStr msg) # rest))))"
  proof -
    from shape show ?thesis
    proof
      assume "snd (chat_POST e rq) = []
                 \<and> (status (fst (chat_POST e rq)) = 400 \<or> status (fst (chat_POST e rq)) = 500)
                 \<and> headers (fst (chat_POST e rq)) = [(''Content-Type'', ''application/json'')]
                 \<and> (\<exists>msg rest. content (fst (chat_POST e rq)) = JsonBody (JObj ((''error'', JStr msg) # rest)))"
      then show ?thesis by blast
    next
      assume "\<exists>call. snd (chat_POST e rq) = [call]
                 \<and> (case streamText e call of
                      Inl t \<Rightarrow> fst (chat_POST e rq) = Response_json (chat_error_body e t) 500
                    | Inr parts \<Rightarrow> fst (chat_POST e rq)
                        = \<lparr>status = 200, headers = [], content = DataStream parts\<rparr>)"
      then obtain call where c: "snd (chat_POST e rq) = [call]"
        and r: "case streamText e call of
                      Inl t \<Rightarrow> fst (chat_POST e rq) = Response_json (chat_error_body e t) 500
                    | Inr parts \<Rightarrow> fst (chat_POST e rq)
                        = \<lparr>status = 200, headers = [], content = DataStream parts\<rparr>"
        by blast
      show ?thesis
      proof (cases "streamText e call")
        case (Inl t)
        with r chat_error_body_shape [of e t] show ?thesis
          by (auto simp: Response_json_def)
      next
        case (Inr parts)
        with r c show ?thesis by auto
      qed
    qed
  qed
  from grounded one bad nokey unread thrown streamed either show ?thesis
    by blast
qed

theorem chat_grounded_or_error_witness:
  "snd (chat_POST example_env
          (Inr (JObj [(''messages'', JArr [JObj [(''role'', JStr ''user''), (''content'', JStr ''Summarise'')]]),
                      (''scrapedContent'', JStr ''Hello world'')])))
     = [\<lparr>mc_model = ''gemini-2.0-flash-exp'',
         mc_system = prompt_before_content @ ''Hello world'' @ prompt_after_content,
         mc_messages = Some (JArr [JObj [(''role'', JStr ''user''), (''content'', JStr ''Summarise'')]]),
         mc_temperature = 7 / 10, mc_maxTokens = 1000\<rparr>]
   \<and> map mc_system
        (snd (chat_POST example_env
                (Inr (JObj [(''messages'', JArr []), (''scrapedContent'', JStr [])]))))
     = [fallback_prompt]
   \<and> fst (chat_POST (example_env\<lparr>streamText := (\<lambda>call. Inl (ErrorObj ''Invalid prompt''))\<rparr>)
          (Inr (JObj [(''messages'', JArr []), (''scrapedContent'', JStr ''Hello world'')])))
     = \<lparr>status = 500, headers = [(''Content-Type'', ''application/json'')],
        content = JsonBody (JObj [(''error'', JStr ''Invalid prompt''),
                                  (''details'', JStr ''Error: Invalid prompt'')])\<rparr>
   \<and> chat_POST example_env (Inr (JObj [(''messages'', JStr ''hi'')]))
     = (\<lparr>status = 400, headers = [(''Content-Type'', ''application/json'')],
         content = JsonBody (JObj [(''error'', JStr ''Invalid messages format'')])\<rparr>, [])
   \<and> status (fst (chat_POST example_env
         (Inr (JObj [(''messages'', JArr []), (''scrapedContent'', JObj [(''toString'', JNum 1)])]))))
     = 500
   \<and> snd (chat_POST example_env
         (Inr (JObj [(''messages'', JArr []), (''scrapedContent'', JObj [(''toString'', JNum 1)])])))
     = []"
  using chat_grounded_or_error
    [of example_env
        "JObj [(''messages'', JArr [JObj [(''role'', JStr ''user''), (''content'', JStr ''Summarise'')]]),
               (''scrapedContent'', JStr ''Hello world'')]"
        "Inr (JObj [(''messages'', JStr ''hi'')])"]
  by (simp add: chat_POST_def chat_try_def Response_json_def example_env_def Let_def
      to_primitive_message_def)

text \<open>
  C8, as stated, fails: \<open>streamText\<close> is not awaited, so a failure of the
  text-generation service does not reach the \<open>catch\<close> block. It arrives as a part of
  the stream, in a response with status 200 and no JSON error.
\<close>

theorem chat_service_failure_streamed:
  "fst (chat_POST (example_env\<lparr>streamText := (\<lambda>call. Inr [ErrorPart ''An error occurred.''])\<rparr>)
          (Inr (JObj [(''messages'', JArr [JObj [(''role'', JStr ''user''), (''content'', JStr ''Summarise'')]]),
                      (''scrapedContent'', JStr ''Hello world'')])))
     = \<lparr>status = 200, headers = [], content = DataStream [ErrorPart ''An error occurred.'']\<rparr>"
  by (simp add: chat_POST_def chat_try_def example_env_def Let_def)

section \<open>The default page budget\<close>

text \<open>
  C9. For every scrape request whose body has no \<open>maxPages\<close>, every request forwarded
  to the backend carries \<open>max_pages = 5\<close>; and with a truthy \<open>url\<close> whose conversion to
  a string the URL parser accepts, exactly one request is forwarded.
\<close>

theorem scrape_default_max_pages:
  assumes "property b ''maxPages'' = None"
  shows "(\<forall>req \<in> set (snd (scrape_POST e (Inr b))).
            \<exists>u. br_body req = Some (JObj [(''url'', u), (''max_pages'', JNum 5)]))
       \<and> (\<forall>u s. property b ''url'' = Some u \<and> truthy u \<and> js_String u = Inr s \<and> url_parses e s \<longrightarrow>
             snd (scrape_POST e (Inr b))
               = [\<lparr>br_method = POST, br_url = PYTHON_API_URL e @ ''/scrape'',
                   br_headers = json_headers,
                   br_body = Some (JObj [(''url'', u), (''max_pages'', JNum 5)])\<rparr>])"
  using assms
  by (cases b)
     (auto simp: scrape_POST_def scrape_try_def new_URL_returns_def Let_def
           split: sum.splits option.splits if_splits prod.splits)

theorem scrape_default_max_pages_witness:
  "property (JObj [(''url'', JStr ''https://example.com'')]) ''maxPages'' = None
   \<and> snd (scrape_POST example_env (Inr (JObj [(''url'', JStr ''https://example.com'')])))
       = [\<lparr>br_method = POST, br_url = ''http://localhost:8000/scrape'',
           br_headers = [(''Content-Type'', ''application/json'')],
           br_body = Some (JObj [(''url'', JStr ''https://example.com''), (''max_pages'', JNum 5)])\<rparr>]"
proof -
  have h: "property (JObj [(''url'', JStr ''https://example.com'')]) ''maxPages'' = None"
    by simp
  have v: "property (JObj [(''url'', JStr ''https://example.com'')]) ''url'' = Some (JStr ''https://example.com'')
           \<and> truthy (JStr ''https://example.com'')
           \<and> js_String (JStr ''https://example.com'') = Inr ''https://example.com''
           \<and> url_parses example_env ''https://example.com''"
    by (simp add: example_env_def)
  from scrape_default_max_pages [OF h, of example_env] v
  show ?thesis
    by (simp add: PYTHON_API_URL_def json_headers_def example_env_def)
qed

section \<open>The export route\<close>



end
